theory Spec2Isabelle
  imports Complex_Main "HOL-Library.Sublist"
begin

section \<open>Data model\<close>

text \<open>
  The Django models of \<^verbatim>\<open>authentication/models.py\<close> and \<^verbatim>\<open>expenses/models.py\<close>.
  Decimal amounts are rationals; primary keys are natural numbers; a nullable column is an
  \<open>option\<close>; a foreign key to a user holds the user's primary key, except \<open>employee\<close>,
  which holds the row the methods read through (\<^verbatim>\<open>self.employee.id\<close>,
  \<^verbatim>\<open>self.employee.get_direct_manager()\<close>).
\<close>

datatype Role = EMPLOYEE | MANAGER | FINANCE | COMPLIANCE | VP | CFO

datatype ExpenseCategory =
  TRAVEL | MEALS | ACCOMMODATION | ENTERTAINMENT | SUPPLIES | CAPITAL | OTHER

datatype ExpenseState = DRAFT | SUBMITTED | APPROVED | COMPLIANCE_HOLD | REJECTED | PAID

text \<open>A \<^verbatim>\<open>datetime\<close> by its fields; a \<^verbatim>\<open>date\<close> by its proleptic Gregorian ordinal.\<close>

record datetime =
  year :: int
  month :: int
  day :: int
  hour :: int
  minute :: int
  second :: int
  microsecond :: int

type_synonym date = int

record User =
  uid :: nat
  role :: Role
  user_department :: string
  user_manager :: "nat option"
  approval_limit :: "rat option"
  monthly_expense_limit :: "rat option"
  is_active_approver :: bool
  is_active :: bool

record PaymentDetails =
  payment_id :: string
  pd_processed_at :: datetime
  payment_method :: string
  pd_vendor_id :: string
  pd_amount :: rat
  pd_currency :: string

record Expense =
  eid :: nat
  employee :: User
  amount :: rat
  expense_category :: ExpenseCategory
  currency :: string
  expense_date :: date
  vendor_id :: string
  department :: string
  description :: string
  state :: ExpenseState
  manager :: "nat option"
  finance_user :: "nat option"
  compliance_user :: "nat option"
  submitted_at :: "datetime option"
  approved_at :: "datetime option"
  approved_by :: "nat option"
  processed_at :: "datetime option"
  processed_by :: "nat option"
  rejected_at :: "datetime option"
  rejection_reason :: string
  flagged_at :: "datetime option"
  flagged_by :: "nat option"
  flag_reason :: string
  override_reason :: string
  payment_details :: "PaymentDetails option"
  created_at :: datetime
  updated_at :: datetime

record Receipt =
  rid :: nat
  receipt_expense :: nat
  file_name :: string

text \<open>
  What a method reads and writes besides its arguments: the clock
  (\<^verbatim>\<open>timezone.now()\<close>), the tables, and the value \<^verbatim>\<open>uuid.uuid4()\<close> returns.
  A row of the object-permission table is a permission, the primary key of the user who
  holds it and the primary key of the expense it is on.
\<close>

record world =
  now :: datetime
  users :: "User list"
  expenses :: "Expense list"
  receipts :: "Receipt list"
  object_permissions :: "(string \<times> nat \<times> nat) list"
  uuid4 :: string

text \<open>
  Exceptions. \<open>ValidationError\<close> carries its message; \<open>ExceedsApprovalLimit\<close> is the
  \<^verbatim>\<open>ValidationError(f"Amount ${self.amount} exceeds approval limit")\<close> of
  \<^verbatim>\<open>approve\<close>, carrying the amount; \<open>TransitionNotAllowed\<close> is raised by the
  \<^verbatim>\<open>@transition\<close> decorator; \<open>AttributeError\<close> by reading \<^verbatim>\<open>.id\<close> of \<^verbatim>\<open>None\<close>.
\<close>

datatype error =
  ValidationError string
| ExceedsApprovalLimit rat
| TransitionNotAllowed
| AttributeError

datatype outcome = Returned | Raised error

section \<open>Settings\<close>

text \<open>\<^verbatim>\<open>settings.EXPENSE_RULES\<close>, the entries the models read.\<close>

definition MAX_AMOUNT_WITHOUT_RECEIPT :: rat where
  "MAX_AMOUNT_WITHOUT_RECEIPT = 25"

definition MAX_EXPENSE_AGE_DAYS :: int where
  "MAX_EXPENSE_AGE_DAYS = 90"

definition ENTERTAINMENT_REQUIRES_VP :: rat where
  "ENTERTAINMENT_REQUIRES_VP = 200"

section \<open>Dates and times\<close>

text \<open>Comparison of datetimes is comparison of their field tuples.\<close>

fun lex_le :: "int list \<Rightarrow> int list \<Rightarrow> bool" where
  "lex_le [] ys = True"
| "lex_le (x # xs) [] = False"
| "lex_le (x # xs) (y # ys) = (x < y \<or> (x = y \<and> lex_le xs ys))"

definition dt_fields :: "datetime \<Rightarrow> int list" where
  "dt_fields t = [year t, month t, day t, hour t, minute t, second t, microsecond t]"

definition dt_ge :: "datetime \<Rightarrow> datetime \<Rightarrow> bool" where
  "dt_ge a b = lex_le (dt_fields b) (dt_fields a)"

text \<open>\<^verbatim>\<open>now.replace(day=1, hour=0, minute=0, second=0, microsecond=0)\<close>\<close>

definition month_start_of :: "datetime \<Rightarrow> datetime" where
  "month_start_of t = t\<lparr>day := 1, hour := 0, minute := 0, second := 0, microsecond := 0\<rparr>"

text \<open>\<^verbatim>\<open>datetime.date()\<close> as an ordinal: day 1 is 0001-01-01.\<close>

definition is_leap :: "int \<Rightarrow> bool" where
  "is_leap y = (y mod 4 = 0 \<and> (y mod 100 \<noteq> 0 \<or> y mod 400 = 0))"

definition days_before_year :: "int \<Rightarrow> int" where
  "days_before_year y = (let p = y - 1 in p * 365 + p div 4 - p div 100 + p div 400)"

definition days_before_month :: "int \<Rightarrow> int \<Rightarrow> int" where
  "days_before_month y m =
     sum_list (take (nat (m - 1)) [31, 28, 31, 30, 31, 30, 31, 31, 30, 31, 30, 31])
     + (if m > 2 \<and> is_leap y then 1 else 0)"

definition ymd2ord :: "int \<Rightarrow> int \<Rightarrow> int \<Rightarrow> date" where
  "ymd2ord y m d = days_before_year y + days_before_month y m + d"

definition date_of :: "datetime \<Rightarrow> date" where
  "date_of t = ymd2ord (year t) (month t) (day t)"

section \<open>User methods\<close>

definition can_approve_expenses :: "User \<Rightarrow> bool" where
  "can_approve_expenses u = (role u \<in> set [MANAGER, VP, CFO] \<and> is_active_approver u)"

definition can_process_payments :: "User \<Rightarrow> bool" where
  "can_process_payments u = (role u = FINANCE \<and> is_active_approver u)"

definition can_audit_expenses :: "User \<Rightarrow> bool" where
  "can_audit_expenses u = (role u = COMPLIANCE \<and> is_active_approver u)"

definition can_executive_override :: "User \<Rightarrow> bool" where
  "can_executive_override u = (role u \<in> set [VP, CFO] \<and> is_active_approver u)"

definition is_vp :: "User \<Rightarrow> bool" where
  "is_vp u = (role u = VP)"

definition is_cfo :: "User \<Rightarrow> bool" where
  "is_cfo u = (role u = CFO)"

text \<open>\<^verbatim>\<open>self.approval_limit or 0\<close>: an unset limit counts as 0.\<close>

definition get_approval_limit :: "User \<Rightarrow> rat" where
  "get_approval_limit u = (case approval_limit u of None \<Rightarrow> 0 | Some l \<Rightarrow> l)"

definition get_monthly_expense_limit :: "User \<Rightarrow> rat" where
  "get_monthly_expense_limit u = (case monthly_expense_limit u of None \<Rightarrow> 0 | Some l \<Rightarrow> l)"

definition get_direct_manager :: "User \<Rightarrow> nat option" where
  "get_direct_manager u = user_manager u"

definition can_approve_amount :: "User \<Rightarrow> rat \<Rightarrow> bool" where
  "can_approve_amount u a = (get_approval_limit u \<ge> a)"

text \<open>
  \<^verbatim>\<open>Expense.objects.filter(employee=self, created_at__gte=month_start)\<close>, summed; the
  empty sum is \<^verbatim>\<open>None or 0\<close>.
\<close>

definition get_monthly_submitted_amount :: "world \<Rightarrow> User \<Rightarrow> rat" where
  "get_monthly_submitted_amount w u =
     sum_list (map amount
       (filter (\<lambda>x. uid (employee x) = uid u \<and> dt_ge (created_at x) (month_start_of (now w)))
          (expenses w)))"

section \<open>Method bodies as statement lists\<close>

text \<open>
  A method mutates \<^verbatim>\<open>self\<close> statement by statement and stops at the first
  \<^verbatim>\<open>raise\<close>, leaving the object as the statements before it made it. A statement
  maps the object to an outcome and the object after it; \<open>exec\<close> runs a body.
\<close>

type_synonym stmt = "Expense \<Rightarrow> outcome \<times> Expense"

fun exec :: "stmt list \<Rightarrow> Expense \<Rightarrow> outcome \<times> Expense" where
  "exec [] self = (Returned, self)"
| "exec (s # ss) self =
     (case s self of
        (Returned, self') \<Rightarrow> exec ss self'
      | (Raised err, self') \<Rightarrow> (Raised err, self'))"

definition raise_if :: "(Expense \<Rightarrow> bool) \<Rightarrow> error \<Rightarrow> stmt" where
  "raise_if c err self = (if c self then (Raised err, self) else (Returned, self))"

definition assign :: "(Expense \<Rightarrow> Expense) \<Rightarrow> stmt" where
  "assign f self = (Returned, f self)"

section \<open>The \<^verbatim>\<open>@transition\<close> decorator\<close>

text \<open>
  \<^verbatim>\<open>@transition(field=state, source=..., target=...)\<close>: the call raises
  \<^verbatim>\<open>TransitionNotAllowed\<close> when the current state is not a source, runs the method
  otherwise, writes the target state when the method returns and re-raises, with the state
  as it was, when the method raises. \<open>None\<close> is the source \<^verbatim>\<open>'*'\<close>.
\<close>

definition has_transition :: "ExpenseState list option \<Rightarrow> ExpenseState \<Rightarrow> bool" where
  "has_transition source s = (case source of None \<Rightarrow> True | Some ss \<Rightarrow> s \<in> set ss)"

definition transition ::
  "ExpenseState list option \<Rightarrow> ExpenseState \<Rightarrow> stmt \<Rightarrow> Expense \<Rightarrow> outcome \<times> Expense" where
  "transition source target method self =
     (if \<not> has_transition source (state self) then (Raised TransitionNotAllowed, self)
      else case method self of
             (Returned, self') \<Rightarrow> (Returned, self'\<lparr>state := target\<rparr>)
           | (Raised err, self') \<Rightarrow> (Raised err, self'))"

section \<open>Expense helpers\<close>

definition expense_get_direct_manager :: "Expense \<Rightarrow> nat option" where
  "expense_get_direct_manager self = get_direct_manager (employee self)"

text \<open>
  \<^verbatim>\<open>QuerySet.first()\<close> on a queryset without ordering: the row of least primary key.
\<close>

definition first_by_pk :: "User list \<Rightarrow> User option" where
  "first_by_pk us = (case sort_key uid us of [] \<Rightarrow> None | u # _ \<Rightarrow> Some u)"

definition get_finance_user :: "world \<Rightarrow> User option" where
  "get_finance_user w =
     first_by_pk (filter (\<lambda>u. role u = FINANCE \<and> user_department u = ''Finance'' \<and> is_active u)
                    (users w))"

definition get_compliance_user :: "world \<Rightarrow> User option" where
  "get_compliance_user w =
     first_by_pk (filter (\<lambda>u. role u = COMPLIANCE \<and> is_active u) (users w))"

text \<open>\<^verbatim>\<open>sub in s\<close> on strings.\<close>

fun contains :: "string \<Rightarrow> string \<Rightarrow> bool" where
  "contains sub [] = (sub = [])"
| "contains sub (c # cs) = (prefix sub (c # cs) \<or> contains sub cs)"

definition is_vendor_blacklisted :: "Expense \<Rightarrow> bool" where
  "is_vendor_blacklisted self =
     (vendor_id self \<in> set [''VENDOR_BLACKLISTED'', ''SUSPICIOUS_CORP'', ''FRAUD_COMPANY'']
      \<or> (vendor_id self \<noteq> [] \<and> contains ''_BLOCKED'' (vendor_id self)))"

definition is_duplicate_expense :: "world \<Rightarrow> Expense \<Rightarrow> bool" where
  "is_duplicate_expense w self =
     list_ex (\<lambda>x. uid (employee x) = uid (employee self) \<and> vendor_id x = vendor_id self
                  \<and> amount x = amount self \<and> expense_date x = expense_date self
                  \<and> eid x \<noteq> eid self)
       (expenses w)"

definition department_budgets :: "(string \<times> rat) list" where
  "department_budgets =
     [(''Engineering'', 75000), (''Marketing'', 45000), (''Sales'', 60000),
      (''Finance'', 25000), (''HR'', 15000)]"

definition get_remaining_department_budget :: "Expense \<Rightarrow> rat" where
  "get_remaining_department_budget self =
     (case map_of department_budgets (department self) of None \<Rightarrow> 30000 | Some b \<Rightarrow> b)"

definition has_payment_duplicate :: "Expense \<Rightarrow> bool" where
  "has_payment_duplicate self = False"

text \<open>\<^verbatim>\<open>float(self.amount)\<close> is kept exact.\<close>

definition generate_payment_details :: "world \<Rightarrow> Expense \<Rightarrow> PaymentDetails" where
  "generate_payment_details w self =
     \<lparr>payment_id = uuid4 w, pd_processed_at = now w, payment_method = ''ACH_TRANSFER'',
      pd_vendor_id = vendor_id self, pd_amount = amount self, pd_currency = currency self\<rparr>"

definition receipts_exist :: "world \<Rightarrow> Expense \<Rightarrow> bool" where
  "receipts_exist w self = list_ex (\<lambda>r. receipt_expense r = eid self) (receipts w)"

section \<open>Business rule validation\<close>

definition validate_submission_rules :: "world \<Rightarrow> User \<Rightarrow> stmt" where
  "validate_submission_rules w user = exec
     [raise_if (\<lambda>self. amount self > MAX_AMOUNT_WITHOUT_RECEIPT \<and> \<not> receipts_exist w self)
        (ValidationError ''Receipts required for amounts over $25''),
      raise_if (\<lambda>self. get_monthly_submitted_amount w user + amount self
                          > get_monthly_expense_limit user)
        (ValidationError ''Monthly submission limit exceeded''),
      raise_if (\<lambda>self. is_vendor_blacklisted self)
        (ValidationError ''Vendor is currently under investigation''),
      raise_if (\<lambda>self. is_duplicate_expense w self)
        (ValidationError ''Potential duplicate expense detected'')]"

definition validate_approval_rules :: "User \<Rightarrow> stmt" where
  "validate_approval_rules manager_user = exec
     [raise_if (\<lambda>self. amount self > get_remaining_department_budget self)
        (ValidationError ''Insufficient departmental budget''),
      raise_if (\<lambda>self. expense_category self = ENTERTAINMENT
                        \<and> amount self > ENTERTAINMENT_REQUIRES_VP
                        \<and> \<not> is_vp manager_user \<and> \<not> is_cfo manager_user)
        (ValidationError ''Entertainment expenses over $200 require VP approval'')]"

definition validate_payment_processing_rules :: "User \<Rightarrow> stmt" where
  "validate_payment_processing_rules user = exec
     [raise_if (\<lambda>self. has_payment_duplicate self)
        (ValidationError ''Duplicate payment detected'')]"

section \<open>State transition methods\<close>

text \<open>
  Each \<open>_body\<close> is what the method does to the expense, statement by statement; the
  constant without the suffix is the method under its decorator. The last statement of
  \<^verbatim>\<open>submit\<close>, \<^verbatim>\<open>self._update_submission_permissions()\<close>, does not touch the
  expense: it writes rows of the object-permission table, and is modelled after
  \<open>submit\<close>, in \<open>submit_in_world\<close>.
\<close>

definition submit_body :: "world \<Rightarrow> User \<Rightarrow> stmt" where
  "submit_body w user = exec
     [raise_if (\<lambda>self. uid user \<noteq> uid (employee self))
        (ValidationError ''Only the expense owner can submit''),
      validate_submission_rules w user,
      assign (\<lambda>self. self\<lparr>manager := expense_get_direct_manager self\<rparr>),
      assign (\<lambda>self. self\<lparr>finance_user := map_option uid (get_finance_user w)\<rparr>),
      assign (\<lambda>self. self\<lparr>compliance_user := map_option uid (get_compliance_user w)\<rparr>),
      assign (\<lambda>self. self\<lparr>submitted_at := Some (now w)\<rparr>)]"

definition submit :: "world \<Rightarrow> User \<Rightarrow> Expense \<Rightarrow> outcome \<times> Expense" where
  "submit w user = transition (Some [DRAFT]) SUBMITTED (submit_body w user)"




text \<open>
  In \<^verbatim>\<open>approve\<close>, \<^verbatim>\<open>self.manager.id\<close> is read only when the role is manager, and
  raises \<^verbatim>\<open>AttributeError\<close> when no manager is assigned.
\<close>

definition approve_body :: "world \<Rightarrow> User \<Rightarrow> stmt" where
  "approve_body w user = exec
     [raise_if (\<lambda>self. \<not> can_approve_expenses user)
        (ValidationError ''User cannot approve expenses''),
      (\<lambda>self. if role user = MANAGER
               then (case manager self of
                       None \<Rightarrow> (Raised AttributeError, self)
                     | Some m \<Rightarrow>
                         if m \<noteq> uid user
                         then (Raised (ValidationError ''Manager can only approve direct reports''),
                               self)
                         else (Returned, self))
               else (Returned, self)),
      (\<lambda>self. if \<not> can_approve_amount user (amount self)
               then (Raised (ExceedsApprovalLimit (amount self)), self)
               else (Returned, self)),
      validate_approval_rules user,
      assign (\<lambda>self. self\<lparr>approved_at := Some (now w)\<rparr>),
      assign (\<lambda>self. self\<lparr>approved_by := Some (uid user)\<rparr>)]"

definition approve :: "world \<Rightarrow> User \<Rightarrow> Expense \<Rightarrow> outcome \<times> Expense" where
  "approve w user = transition (Some [SUBMITTED]) APPROVED (approve_body w user)"

definition process_payment_body :: "world \<Rightarrow> User \<Rightarrow> stmt" where
  "process_payment_body w user = exec
     [raise_if (\<lambda>self. \<not> can_process_payments user)
        (ValidationError ''User cannot process payments''),
      validate_payment_processing_rules user,
      assign (\<lambda>self. self\<lparr>processed_at := Some (now w)\<rparr>),
      assign (\<lambda>self. self\<lparr>processed_by := Some (uid user)\<rparr>),
      assign (\<lambda>self. self\<lparr>payment_details := Some (generate_payment_details w self)\<rparr>)]"

definition process_payment :: "world \<Rightarrow> User \<Rightarrow> Expense \<Rightarrow> outcome \<times> Expense" where
  "process_payment w user = transition (Some [APPROVED]) PAID (process_payment_body w user)"

definition reject_body :: "world \<Rightarrow> User \<Rightarrow> string \<Rightarrow> stmt" where
  "reject_body w user reason = exec
     [raise_if (\<lambda>self. \<not> can_approve_expenses user)
        (ValidationError ''User cannot reject expenses''),
      assign (\<lambda>self. self\<lparr>rejected_at := Some (now w)\<rparr>),
      assign (\<lambda>self. self\<lparr>rejection_reason := reason\<rparr>)]"

definition reject :: "world \<Rightarrow> User \<Rightarrow> string \<Rightarrow> Expense \<Rightarrow> outcome \<times> Expense" where
  "reject w user reason =
     transition (Some [SUBMITTED, COMPLIANCE_HOLD]) REJECTED (reject_body w user reason)"

definition withdraw_body :: "User \<Rightarrow> stmt" where
  "withdraw_body user = exec
     [raise_if (\<lambda>self. uid user \<noteq> uid (employee self))
        (ValidationError ''Only the expense owner can withdraw''),
      assign (\<lambda>self. self\<lparr>submitted_at := None\<rparr>),
      assign (\<lambda>self. self\<lparr>manager := None\<rparr>),
      assign (\<lambda>self. self\<lparr>finance_user := None\<rparr>),
      assign (\<lambda>self. self\<lparr>compliance_user := None\<rparr>)]"

definition withdraw :: "User \<Rightarrow> Expense \<Rightarrow> outcome \<times> Expense" where
  "withdraw user = transition (Some [SUBMITTED]) DRAFT (withdraw_body user)"

definition flag_suspicious_body :: "world \<Rightarrow> User \<Rightarrow> string \<Rightarrow> stmt" where
  "flag_suspicious_body w user reason = exec
     [raise_if (\<lambda>self. \<not> can_audit_expenses user)
        (ValidationError ''User cannot flag expenses''),
      assign (\<lambda>self. self\<lparr>flagged_at := Some (now w)\<rparr>),
      assign (\<lambda>self. self\<lparr>flagged_by := Some (uid user)\<rparr>),
      assign (\<lambda>self. self\<lparr>flag_reason := reason\<rparr>)]"

definition flag_suspicious :: "world \<Rightarrow> User \<Rightarrow> string \<Rightarrow> Expense \<Rightarrow> outcome \<times> Expense" where
  "flag_suspicious w user reason =
     transition None COMPLIANCE_HOLD (flag_suspicious_body w user reason)"

definition executive_override_body :: "world \<Rightarrow> User \<Rightarrow> string \<Rightarrow> stmt" where
  "executive_override_body w user reason = exec
     [raise_if (\<lambda>self. \<not> can_executive_override user)
        (ValidationError ''User cannot perform executive override''),
      assign (\<lambda>self. self\<lparr>approved_at := Some (now w)\<rparr>),
      assign (\<lambda>self. self\<lparr>approved_by := Some (uid user)\<rparr>),
      assign (\<lambda>self. self\<lparr>override_reason := reason\<rparr>)]"

definition executive_override ::
  "world \<Rightarrow> User \<Rightarrow> string \<Rightarrow> Expense \<Rightarrow> outcome \<times> Expense" where
  "executive_override w user reason =
     transition None APPROVED (executive_override_body w user reason)"

section \<open>Validation on save\<close>

definition clean :: "world \<Rightarrow> stmt" where
  "clean w = exec
     [raise_if (\<lambda>self. amount self \<le> 0)
        (ValidationError ''Amount must be positive''),
      raise_if (\<lambda>self. description self = [] \<or> length (description self) < 10)
        (ValidationError ''Description must be at least 10 characters''),
      raise_if (\<lambda>self. expense_date self < date_of (now w) - MAX_EXPENSE_AGE_DAYS)
        (ValidationError ''Expense date cannot be older than 90 days'')]"

text \<open>
  \<^verbatim>\<open>save\<close>: the department default, \<^verbatim>\<open>clean\<close>, then the row is written
  (\<^verbatim>\<open>updated_at\<close> is \<^verbatim>\<open>auto_now\<close>). \<open>store\<close> is the write: an update of the row
  with this primary key, an insert when there is none. Once the row is written the object
  is no longer one being added, so the branch on \<^verbatim>\<open>self._state.adding\<close> that follows
  grants nothing.
\<close>

definition save_body :: "world \<Rightarrow> stmt" where
  "save_body w = exec
     [assign (\<lambda>self. if department self = []
                      then self\<lparr>department := user_department (employee self)\<rparr> else self),
      clean w,
      assign (\<lambda>self. self\<lparr>updated_at := now w\<rparr>)]"

definition store :: "world \<Rightarrow> Expense \<Rightarrow> world" where
  "store w self =
     w\<lparr>expenses :=
         (if list_ex (\<lambda>x. eid x = eid self) (expenses w)
          then map (\<lambda>x. if eid x = eid self then self else x) (expenses w)
          else expenses w @ [self])\<rparr>"

definition save :: "world \<Rightarrow> Expense \<Rightarrow> outcome \<times> Expense \<times> world" where
  "save w self =
     (case save_body w self of
        (Returned, self') \<Rightarrow> (Returned, self', store w self')
      | (Raised err, self') \<Rightarrow> (Raised err, self', w))"

section \<open>Serializers\<close>


text \<open>\<^verbatim>\<open>ExpenseActionSerializer.validate_reason\<close>, with the action of the context.\<close>

definition validate_reason :: "string \<Rightarrow> string \<Rightarrow> string + string" where
  "validate_reason action v =
     (if action \<in> set [''reject'', ''flag_suspicious'', ''executive_override''] \<and> v = []
      then Inl (''Reason is required for '' @ action @ '' action'')
      else Inr v)"

text \<open>
  The field \<^verbatim>\<open>reason = CharField(required=False, allow_blank=True, max_length=500)\<close>.
  Its input is the value under the key \<^verbatim>\<open>reason\<close> of the request data, \<open>None\<close> when
  the request has no such key. A field that is not required and has no input is skipped:
  no hook runs and \<^verbatim>\<open>validated_data\<close> gets no key. An input that is blank once the
  surrounding whitespace is stripped becomes the empty string, which the field allows;
  any other input is stripped and checked against the maximal length.
\<close>

definition is_whitespace :: "char \<Rightarrow> bool" where
  "is_whitespace c =
     (let n = (of_char c :: nat) in (9 \<le> n \<and> n \<le> 13) \<or> (28 \<le> n \<and> n \<le> 32))"

definition strip :: "string \<Rightarrow> string" where
  "strip v = rev (dropWhile is_whitespace (rev (dropWhile is_whitespace v)))"

definition reason_run_validation :: "string option \<Rightarrow> string + string option" where
  "reason_run_validation data =
     (case data of
        None \<Rightarrow> Inr None
      | Some v \<Rightarrow>
          if strip v = [] then Inr (Some [])
          else if length (strip v) > 500
          then Inl ''Ensure this field has no more than 500 characters.''
          else Inr (Some (strip v)))"

text \<open>
  \<^verbatim>\<open>serializer.is_valid()\<close>: the field's own validation, then, for a field that was
  not skipped, the hook \<^verbatim>\<open>validate_reason\<close>. The result is the error, or
  \<^verbatim>\<open>validated_data\<close>: \<open>None\<close> when it has no key \<^verbatim>\<open>reason\<close>.
\<close>

definition action_serializer_is_valid :: "string \<Rightarrow> string option \<Rightarrow> string + string option" where
  "action_serializer_is_valid action data =
     (case reason_run_validation data of
        Inl m \<Rightarrow> Inl m
      | Inr None \<Rightarrow> Inr None
      | Inr (Some v) \<Rightarrow>
          (case validate_reason action v of Inl m \<Rightarrow> Inl m | Inr v' \<Rightarrow> Inr (Some v')))"

text \<open>\<^verbatim>\<open>serializer.validated_data.get('reason', '')\<close>\<close>

definition validated_reason :: "string option \<Rightarrow> string" where
  "validated_reason d = (case d of None \<Rightarrow> [] | Some r \<Rightarrow> r)"

section \<open>Views\<close>

text \<open>
  The actions of \<^verbatim>\<open>ExpenseViewSet\<close>, from the expense \<^verbatim>\<open>get_object()\<close> returned
  and, for the actions with a serializer, the value of the key \<^verbatim>\<open>reason\<close> in the
  request data. The \<^verbatim>\<open>try\<close> block calls the transition and then \<^verbatim>\<open>save\<close>; a
  \<^verbatim>\<open>ValidationError\<close> of either is answered with status 400, any other exception leaves
  the view.
\<close>

datatype response =
  HTTP_200_OK Expense
| HTTP_400_BAD_REQUEST error
| HTTP_400_serializer_errors string
| HTTP_403_FORBIDDEN
| Unhandled error

fun is_DjangoValidationError :: "error \<Rightarrow> bool" where
  "is_DjangoValidationError (ValidationError m) = True"
| "is_DjangoValidationError (ExceedsApprovalLimit a) = True"
| "is_DjangoValidationError TransitionNotAllowed = False"
| "is_DjangoValidationError AttributeError = False"

definition on_exception :: "world \<Rightarrow> error \<Rightarrow> response \<times> world" where
  "on_exception w err =
     (if is_DjangoValidationError err then (HTTP_400_BAD_REQUEST err, w) else (Unhandled err, w))"

definition try_and_save :: "world \<Rightarrow> outcome \<times> Expense \<Rightarrow> response \<times> world" where
  "try_and_save w r =
     (case r of
        (Raised err, self') \<Rightarrow> on_exception w err
      | (Returned, self') \<Rightarrow>
          (case save w self' of
             (Returned, self'', w') \<Rightarrow> (HTTP_200_OK self'', w')
           | (Raised err, self'', w') \<Rightarrow> on_exception w err))"


definition reject_view :: "world \<Rightarrow> User \<Rightarrow> string option \<Rightarrow> Expense \<Rightarrow> response \<times> world" where
  "reject_view w request_user data expense =
     (case action_serializer_is_valid ''reject'' data of
        Inr d \<Rightarrow> try_and_save w (reject w request_user (validated_reason d) expense)
      | Inl errors \<Rightarrow> (HTTP_400_serializer_errors errors, w))"

definition flag_suspicious_view ::
  "world \<Rightarrow> User \<Rightarrow> string option \<Rightarrow> Expense \<Rightarrow> response \<times> world" where
  "flag_suspicious_view w request_user data expense =
     (case action_serializer_is_valid ''flag_suspicious'' data of
        Inr d \<Rightarrow> try_and_save w (flag_suspicious w request_user (validated_reason d) expense)
      | Inl errors \<Rightarrow> (HTTP_400_serializer_errors errors, w))"

definition executive_override_view ::
  "world \<Rightarrow> User \<Rightarrow> string option \<Rightarrow> Expense \<Rightarrow> response \<times> world" where
  "executive_override_view w request_user data expense =
     (if \<not> can_executive_override request_user then (HTTP_403_FORBIDDEN, w)
      else case action_serializer_is_valid ''executive_override'' data of
             Inr d \<Rightarrow>
               try_and_save w (executive_override w request_user (validated_reason d) expense)
           | Inl errors \<Rightarrow> (HTTP_400_serializer_errors errors, w))"

section \<open>Transition requests\<close>

text \<open>
  A request names a transition, its actor and its parameters; a sequence of requests adds
  to each the world it is served in, since the clock and the tables move between requests.
\<close>

datatype transition_name =
  T_submit | T_approve | T_reject | T_withdraw | T_process_payment
| T_flag_suspicious | T_executive_override

datatype request =
  Submit User
| Approve User
| Reject User string
| Withdraw User
| ProcessPayment User
| FlagSuspicious User string
| ExecutiveOverride User string

fun name_of :: "request \<Rightarrow> transition_name" where
  "name_of (Submit u) = T_submit"
| "name_of (Approve u) = T_approve"
| "name_of (Reject u r) = T_reject"
| "name_of (Withdraw u) = T_withdraw"
| "name_of (ProcessPayment u) = T_process_payment"
| "name_of (FlagSuspicious u r) = T_flag_suspicious"
| "name_of (ExecutiveOverride u r) = T_executive_override"

fun request_transition :: "world \<Rightarrow> request \<Rightarrow> Expense \<Rightarrow> outcome \<times> Expense" where
  "request_transition w (Submit u) self = submit w u self"
| "request_transition w (Approve u) self = approve w u self"
| "request_transition w (Reject u r) self = reject w u r self"
| "request_transition w (Withdraw u) self = withdraw u self"
| "request_transition w (ProcessPayment u) self = process_payment w u self"
| "request_transition w (FlagSuspicious u r) self = flag_suspicious w u r self"
| "request_transition w (ExecutiveOverride u r) self = executive_override w u r self"

text \<open>The expense after a sequence of requests, and the log of what each request did.\<close>

fun run_requests :: "(world \<times> request) list \<Rightarrow> Expense \<Rightarrow> Expense" where
  "run_requests [] self = self"
| "run_requests ((w, r) # rs) self = run_requests rs (snd (request_transition w r self))"

fun request_log ::
  "(world \<times> request) list \<Rightarrow> Expense
     \<Rightarrow> (ExpenseState \<times> transition_name \<times> outcome \<times> ExpenseState) list" where
  "request_log [] self = []"
| "request_log ((w, r) # rs) self =
     (state self, name_of r, fst (request_transition w r self),
      state (snd (request_transition w r self)))
     # request_log rs (snd (request_transition w r self))"

text \<open>
  The transition table as the specification writes it (section 4.5), \<open>any\<close> being every
  state; an edge of the table, and the states a transition is listed from.
\<close>

definition any_state :: "ExpenseState list" where
  "any_state = [DRAFT, SUBMITTED, APPROVED, COMPLIANCE_HOLD, REJECTED, PAID]"

definition spec_transition_table ::
  "(transition_name \<times> ExpenseState list \<times> ExpenseState) list" where
  "spec_transition_table =
     [(T_submit, [DRAFT], SUBMITTED),
      (T_approve, [SUBMITTED], APPROVED),
      (T_reject, [SUBMITTED, COMPLIANCE_HOLD], REJECTED),
      (T_withdraw, [SUBMITTED], DRAFT),
      (T_process_payment, [APPROVED], PAID),
      (T_flag_suspicious, any_state, COMPLIANCE_HOLD),
      (T_executive_override, any_state, APPROVED)]"

definition spec_edge :: "ExpenseState \<Rightarrow> transition_name \<Rightarrow> ExpenseState \<Rightarrow> bool" where
  "spec_edge s t s' =
     list_ex (\<lambda>(t', srcs, tgt). t' = t \<and> s \<in> set srcs \<and> s' = tgt) spec_transition_table"

definition spec_source :: "ExpenseState \<Rightarrow> transition_name \<Rightarrow> bool" where
  "spec_source s t = list_ex (\<lambda>(t', srcs, tgt). t' = t \<and> s \<in> set srcs) spec_transition_table"

inductive spec_reachable :: "ExpenseState \<Rightarrow> ExpenseState \<Rightarrow> bool" where
  here: "spec_reachable s s"
| along: "spec_reachable s s' \<Longrightarrow> spec_edge s' t s'' \<Longrightarrow> spec_reachable s s''"

section \<open>Example data\<close>

text \<open>
  The users of \<^verbatim>\<open>seed_users\<close> (john reports to jane), a clock, and a draft expense of
  john's that passes every submission rule.
\<close>

definition noon_15_june :: datetime where
  "noon_15_june =
     \<lparr>year = 2024, month = 6, day = 15, hour = 12, minute = 0, second = 0, microsecond = 0\<rparr>"

definition john_employee :: User where
  "john_employee =
     \<lparr>uid = 1, role = EMPLOYEE, user_department = ''Engineering'', user_manager = Some 2,
      approval_limit = Some 0, monthly_expense_limit = Some 2000,
      is_active_approver = True, is_active = True\<rparr>"

definition jane_manager :: User where
  "jane_manager =
     \<lparr>uid = 2, role = MANAGER, user_department = ''Engineering'', user_manager = None,
      approval_limit = Some 5000, monthly_expense_limit = Some 5000,
      is_active_approver = True, is_active = True\<rparr>"

definition mike_finance :: User where
  "mike_finance =
     \<lparr>uid = 3, role = FINANCE, user_department = ''Finance'', user_manager = None,
      approval_limit = Some 5000, monthly_expense_limit = Some 10000,
      is_active_approver = True, is_active = True\<rparr>"

definition sarah_compliance :: User where
  "sarah_compliance =
     \<lparr>uid = 4, role = COMPLIANCE, user_department = ''Compliance'', user_manager = None,
      approval_limit = Some 5000, monthly_expense_limit = Some 5000,
      is_active_approver = True, is_active = True\<rparr>"

definition david_vp :: User where
  "david_vp =
     \<lparr>uid = 5, role = VP, user_department = ''Executive'', user_manager = None,
      approval_limit = Some 50000, monthly_expense_limit = Some 15000,
      is_active_approver = True, is_active = True\<rparr>"

definition taxi_draft :: Expense where
  "taxi_draft =
     \<lparr>eid = 10, employee = john_employee, amount = 20, expense_category = TRAVEL,
      currency = ''USD'', expense_date = ymd2ord 2024 6 10, vendor_id = ''CITY_CABS'',
      department = ''Engineering'', description = ''Taxi to the airport'', state = DRAFT,
      manager = None, finance_user = None, compliance_user = None, submitted_at = None,
      approved_at = None, approved_by = None, processed_at = None, processed_by = None,
      rejected_at = None, rejection_reason = [], flagged_at = None, flagged_by = None,
      flag_reason = [], override_reason = [], payment_details = None,
      created_at = noon_15_june\<lparr>day := 14\<rparr>, updated_at = noon_15_june\<lparr>day := 14\<rparr>\<rparr>"

definition seed_world :: world where
  "seed_world =
     \<lparr>now = noon_15_june,
      users = [john_employee, jane_manager, mike_finance, sarah_compliance, david_vp],
      expenses = [taxi_draft], receipts = [], object_permissions = [],
      uuid4 = ''6f1c2d9e''\<rparr>"

text \<open>The same expense after john submitted it.\<close>

definition taxi_submitted :: Expense where
  "taxi_submitted =
     taxi_draft\<lparr>state := SUBMITTED, manager := Some 2, finance_user := Some 3,
                compliance_user := Some 4, submitted_at := Some noon_15_june\<rparr>"

text \<open>
  A world whose only finance user works in another department than \<open>''Finance''\<close>.
\<close>

definition accounting_world :: world where
  "accounting_world =
     seed_world\<lparr>users :=
       [john_employee, jane_manager, mike_finance\<lparr>user_department := ''Accounting''\<rparr>]\<rparr>"

text \<open>
  John's expenses in June: a hotel bill of 1995.00 submitted on the 3rd, and a draft of 5.00
  created on the morning of the 15th.
\<close>

definition hotel_submitted :: Expense where
  "hotel_submitted =
     taxi_submitted\<lparr>eid := 11, amount := 1995, expense_category := ACCOMMODATION,
       vendor_id := ''GRAND_HOTEL'', description := ''Hotel for the conference'',
       created_at := noon_15_june\<lparr>day := 3\<rparr>\<rparr>"

definition coffee_draft :: Expense where
  "coffee_draft =
     taxi_draft\<lparr>eid := 12, amount := 5, expense_category := MEALS,
       vendor_id := ''CORNER_CAFE'', description := ''Coffee with a client'',
       created_at := noon_15_june\<lparr>hour := 9\<rparr>\<rparr>"

definition june_world :: world where
  "june_world = seed_world\<lparr>expenses := [hotel_submitted, coffee_draft]\<rparr>"

text \<open>
  Three requests on the taxi draft: john withdraws it, john submits it, jane approves it.
\<close>

definition taxi_requests :: "(world \<times> request) list" where
  "taxi_requests =
     [(seed_world, Withdraw john_employee), (seed_world, Submit john_employee),
      (seed_world, Approve jane_manager)]"

section \<open>Statements of the party resolver\<close>

text \<open>
  \<open>least_pk_among P us r\<close>: \<open>r\<close> is the primary key of the user of least primary key
  among those of \<open>us\<close> that satisfy \<open>P\<close>, and \<open>None\<close> when there is none.
\<close>

definition least_pk_among :: "(User \<Rightarrow> bool) \<Rightarrow> User list \<Rightarrow> nat option \<Rightarrow> bool" where
  "least_pk_among P us r =
     (case r of
        None \<Rightarrow> \<not> list_ex P us
      | Some i \<Rightarrow> list_ex (\<lambda>u. P u \<and> uid u = i) us \<and> list_all (\<lambda>v. P v \<longrightarrow> i \<le> uid v) us)"

section \<open>Properties\<close>

lemmas stmt_defs = raise_if_def assign_def

lemma validate_payment_processing_rules_returns:
  "validate_payment_processing_rules u self = (Returned, self)"
  by (simp add: validate_payment_processing_rules_def has_payment_duplicate_def stmt_defs)

lemma submit_body_raised: "submit_body w u self = (Raised err, self') \<Longrightarrow> self' = self"
  by (auto simp: stmt_defs submit_body_def validate_submission_rules_def
      split: if_splits prod.splits outcome.splits)

lemma approve_body_raised: "approve_body w u self = (Raised err, self') \<Longrightarrow> self' = self"
  by (auto simp: stmt_defs approve_body_def validate_approval_rules_def
      split: if_splits prod.splits outcome.splits option.splits)

lemma process_payment_body_raised:
  "process_payment_body w u self = (Raised err, self') \<Longrightarrow> self' = self"
  by (auto simp: stmt_defs process_payment_body_def validate_payment_processing_rules_returns
      split: if_splits)

lemma reject_body_raised: "reject_body w u r self = (Raised err, self') \<Longrightarrow> self' = self"
  by (auto simp: stmt_defs reject_body_def split: if_splits)

lemma withdraw_body_raised: "withdraw_body u self = (Raised err, self') \<Longrightarrow> self' = self"
  by (auto simp: stmt_defs withdraw_body_def split: if_splits)

lemma flag_suspicious_body_raised:
  "flag_suspicious_body w u r self = (Raised err, self') \<Longrightarrow> self' = self"
  by (auto simp: stmt_defs flag_suspicious_body_def split: if_splits)

lemma executive_override_body_raised:
  "executive_override_body w u r self = (Raised err, self') \<Longrightarrow> self' = self"
  by (auto simp: stmt_defs executive_override_body_def split: if_splits)

lemma transition_raised:
  assumes "\<And>err self'. method self = (Raised err, self') \<Longrightarrow> self' = self"
    and "transition source target method self = (Raised err, self')"
  shows "self' = self"
  using assms by (auto simp: transition_def split: if_splits prod.splits outcome.splits)

lemma request_transition_raised:
  "request_transition w r self = (Raised err, self') \<Longrightarrow> self' = self"
proof (cases r)
  case (Submit u)
  then show "request_transition w r self = (Raised err, self') \<Longrightarrow> self' = self"
    using transition_raised [of "submit_body w u" self] submit_body_raised
    by (auto simp: submit_def)
next
  case (Approve u)
  then show "request_transition w r self = (Raised err, self') \<Longrightarrow> self' = self"
    using transition_raised [of "approve_body w u" self] approve_body_raised
    by (auto simp: approve_def)
next
  case (Reject u x)
  then show "request_transition w r self = (Raised err, self') \<Longrightarrow> self' = self"
    using transition_raised [of "reject_body w u x" self] reject_body_raised
    by (auto simp: reject_def)
next
  case (Withdraw u)
  then show "request_transition w r self = (Raised err, self') \<Longrightarrow> self' = self"
    using transition_raised [of "withdraw_body u" self] withdraw_body_raised
    by (auto simp: withdraw_def)
next
  case (ProcessPayment u)
  then show "request_transition w r self = (Raised err, self') \<Longrightarrow> self' = self"
    using transition_raised [of "process_payment_body w u" self] process_payment_body_raised
    by (auto simp: process_payment_def)
next
  case (FlagSuspicious u x)
  then show "request_transition w r self = (Raised err, self') \<Longrightarrow> self' = self"
    using transition_raised [of "flag_suspicious_body w u x" self] flag_suspicious_body_raised
    by (auto simp: flag_suspicious_def)
next
  case (ExecutiveOverride u x)
  then show "request_transition w r self = (Raised err, self') \<Longrightarrow> self' = self"
    using transition_raised [of "executive_override_body w u x" self]
      executive_override_body_raised
    by (auto simp: executive_override_def)
qed

text \<open>
  Claim C2. Whatever the transition, its actor, its parameters and the world, a request
  that does not return (the authorization check, a business rule, the decorator's source
  check or an attribute read raised) leaves the expense exactly as it was: the state and
  every field.
\<close>

theorem failed_transition_mutates_nothing:
  "fst (request_transition w r self) \<noteq> Returned \<Longrightarrow> snd (request_transition w r self) = self"
proof -
  assume a: "fst (request_transition w r self) \<noteq> Returned"
  obtain out self' where eq: "request_transition w r self = (out, self')"
    by (cases "request_transition w r self")
  with a obtain err where "out = Raised err" by (cases out) auto
  with eq have "self' = self" using request_transition_raised by blast
  with eq show ?thesis by simp
qed

theorem failed_transition_mutates_nothing_witness:
  "fst (request_transition seed_world (Withdraw jane_manager) taxi_submitted) \<noteq> Returned
   \<and> fst (request_transition seed_world (Approve jane_manager) taxi_draft) \<noteq> Returned
   \<and> snd (request_transition seed_world (Withdraw jane_manager) taxi_submitted) = taxi_submitted
   \<and> snd (request_transition seed_world (Approve jane_manager) taxi_draft) = taxi_draft"
proof -
  have a: "fst (request_transition seed_world (Withdraw jane_manager) taxi_submitted) \<noteq> Returned"
    by code_simp
  have b: "fst (request_transition seed_world (Approve jane_manager) taxi_draft) \<noteq> Returned"
    by code_simp
  show ?thesis
    using a b failed_transition_mutates_nothing [OF a] failed_transition_mutates_nothing [OF b]
    by simp
qed

lemma approve_body_eq:
  "approve_body w u self =
     (if \<not> can_approve_expenses u
      then (Raised (ValidationError ''User cannot approve expenses''), self)
      else if role u = MANAGER \<and> manager self = None then (Raised AttributeError, self)
      else if role u = MANAGER \<and> manager self \<noteq> Some (uid u)
      then (Raised (ValidationError ''Manager can only approve direct reports''), self)
      else if get_approval_limit u < amount self
      then (Raised (ExceedsApprovalLimit (amount self)), self)
      else if get_remaining_department_budget self < amount self
      then (Raised (ValidationError ''Insufficient departmental budget''), self)
      else if expense_category self = ENTERTAINMENT \<and> ENTERTAINMENT_REQUIRES_VP < amount self
              \<and> role u \<noteq> VP \<and> role u \<noteq> CFO
      then (Raised (ValidationError ''Entertainment expenses over $200 require VP approval''),
            self)
      else (Returned, self\<lparr>approved_at := Some (now w), approved_by := Some (uid u)\<rparr>))"
  by (auto simp: stmt_defs approve_body_def validate_approval_rules_def can_approve_amount_def
      is_vp_def is_cfo_def split: option.splits)

lemma withdraw_body_eq:
  "withdraw_body u self =
     (if uid u \<noteq> uid (employee self)
      then (Raised (ValidationError ''Only the expense owner can withdraw''), self)
      else (Returned, self\<lparr>submitted_at := None, manager := None, finance_user := None,
                              compliance_user := None\<rparr>))"
  by (simp add: stmt_defs withdraw_body_def)

text \<open>
  Claim C9. On a submitted expense, withdraw by the owning employee returns and the expense
  is the one before with submitted_at, manager, finance_user and compliance_user unset and
  the state draft, every other field as it was; on a draft expense withdraw raises
  TransitionNotAllowed, the wrong-state error, whoever calls it.
\<close>

theorem withdraw_resets_submission:
  "(state self = SUBMITTED \<and> uid u = uid (employee self) \<longrightarrow>
      withdraw u self =
        (Returned, self\<lparr>submitted_at := None, manager := None, finance_user := None,
                         compliance_user := None, state := DRAFT\<rparr>))
   \<and> (state self = DRAFT \<longrightarrow> withdraw u self = (Raised TransitionNotAllowed, self))"
  by (simp add: withdraw_def transition_def has_transition_def withdraw_body_eq)

theorem withdraw_resets_submission_witness:
  "state taxi_submitted = SUBMITTED \<and> uid john_employee = uid (employee taxi_submitted)
   \<and> withdraw john_employee taxi_submitted = (Returned, taxi_draft)
   \<and> state taxi_draft = DRAFT
   \<and> withdraw john_employee taxi_draft = (Raised TransitionNotAllowed, taxi_draft)"
  using withdraw_resets_submission [of taxi_submitted john_employee]
    withdraw_resets_submission [of taxi_draft john_employee]
  by (simp add: taxi_submitted_def taxi_draft_def john_employee_def)

text \<open>
  Claim C10. On a submitted expense with no manager assigned, approve by an active approver
  whose role is manager raises AttributeError and changes nothing; and whenever approve by
  an active approver of role manager raises a ValidationError, the named denial, the
  expense has a manager assigned.
\<close>

theorem approve_without_manager:
  "(state self = SUBMITTED \<and> manager self = None \<and> role u = MANAGER \<and> is_active_approver u
      \<longrightarrow> approve w u self = (Raised AttributeError, self))
   \<and> (role u = MANAGER \<and> is_active_approver u
        \<and> fst (approve w u self) = Raised (ValidationError m) \<longrightarrow> manager self \<noteq> None)"
  by (auto simp: approve_def transition_def has_transition_def approve_body_eq
      can_approve_expenses_def split: if_splits)

theorem approve_without_manager_witness:
  "state (taxi_submitted\<lparr>manager := None\<rparr>) = SUBMITTED
   \<and> manager (taxi_submitted\<lparr>manager := None\<rparr>) = None
   \<and> role jane_manager = MANAGER \<and> is_active_approver jane_manager
   \<and> approve seed_world jane_manager (taxi_submitted\<lparr>manager := None\<rparr>)
       = (Raised AttributeError, taxi_submitted\<lparr>manager := None\<rparr>)
   \<and> fst (approve seed_world jane_manager (taxi_submitted\<lparr>manager := Some 7\<rparr>))
       = Raised (ValidationError ''Manager can only approve direct reports'')
   \<and> manager (taxi_submitted\<lparr>manager := Some 7\<rparr>) \<noteq> None"
proof -
  have a: "fst (approve seed_world jane_manager (taxi_submitted\<lparr>manager := Some 7\<rparr>))
       = Raised (ValidationError ''Manager can only approve direct reports'')"
    by code_simp
  show ?thesis
    using a approve_without_manager [of "taxi_submitted\<lparr>manager := None\<rparr>" jane_manager seed_world]
      approve_without_manager [of "taxi_submitted\<lparr>manager := Some 7\<rparr>" jane_manager seed_world
        "''Manager can only approve direct reports''"]
    by (simp add: taxi_submitted_def taxi_draft_def jane_manager_def)
qed

lemma budget_at_least: "15000 \<le> get_remaining_department_budget self"
  by (simp add: get_remaining_department_budget_def department_budgets_def)

lemmas approve_eq = approve_def transition_def has_transition_def approve_body_eq

text \<open>
  Claim C3, as stated, fails in its last part: a manager with approval_limit 5000.00, the
  assigned manager and an active approver, is not allowed to approve every expense of
  amount exactly 5000.00. On an entertainment expense the limit check passes and the
  entertainment rule raises.
\<close>

theorem approve_at_limit_counterexample:
  "state (taxi_submitted\<lparr>expense_category := ENTERTAINMENT, amount := 5000\<rparr>) = SUBMITTED
   \<and> role jane_manager = MANAGER \<and> is_active_approver jane_manager
   \<and> manager (taxi_submitted\<lparr>expense_category := ENTERTAINMENT, amount := 5000\<rparr>)
       = Some (uid jane_manager)
   \<and> approval_limit jane_manager = Some 5000
   \<and> amount (taxi_submitted\<lparr>expense_category := ENTERTAINMENT, amount := 5000\<rparr>) = 5000
   \<and> approve seed_world jane_manager
        (taxi_submitted\<lparr>expense_category := ENTERTAINMENT, amount := 5000\<rparr>)
       = (Raised (ValidationError ''Entertainment expenses over $200 require VP approval''),
          taxi_submitted\<lparr>expense_category := ENTERTAINMENT, amount := 5000\<rparr>)"
  by (simp add: approve_eq taxi_submitted_def taxi_draft_def jane_manager_def
      can_approve_expenses_def get_approval_limit_def get_remaining_department_budget_def
      department_budgets_def ENTERTAINMENT_REQUIRES_VP_def)

text \<open>
  Claim C3, amended. On a submitted expense, for an actor permitted to approve it (an active
  approver of role manager, vp or cfo who, when a manager, is the assigned manager), approve
  raises the limit-exceeded error exactly when the actor's approval_limit is strictly less
  than the amount, an unset approval_limit counting as 0. A manager with approval_limit
  5000.00 is denied at amount 5000.01 with that error; at exactly 5000.00 the limit does not
  deny, and the approval goes through unless the expense is an entertainment expense, which
  the entertainment rule denies to a manager.
\<close>

theorem approve_limit_exceeded_iff:
  "(state self = SUBMITTED \<and> can_approve_expenses u
      \<and> (role u = MANAGER \<longrightarrow> manager self = Some (uid u)) \<longrightarrow>
      (approval_limit u = Some l \<longrightarrow>
         ((\<exists>a. fst (approve w u self) = Raised (ExceedsApprovalLimit a)) \<longleftrightarrow> l < amount self))
      \<and> (approval_limit u = None \<longrightarrow>
           ((\<exists>a. fst (approve w u self) = Raised (ExceedsApprovalLimit a))
              \<longleftrightarrow> 0 < amount self)))
   \<and> (state self = SUBMITTED \<and> role u = MANAGER \<and> is_active_approver u
        \<and> manager self = Some (uid u) \<and> approval_limit u = Some 5000 \<longrightarrow>
        (amount self = 500001 / 100 \<longrightarrow>
           approve w u self = (Raised (ExceedsApprovalLimit (500001 / 100)), self))
        \<and> (amount self = 5000 \<longrightarrow>
             approve w u self =
               (if expense_category self = ENTERTAINMENT
                then (Raised (ValidationError
                                ''Entertainment expenses over $200 require VP approval''),
                      self)
                else (Returned, self\<lparr>approved_at := Some (now w),
                                       approved_by := Some (uid u), state := APPROVED\<rparr>))))"
proof -
  have b: "\<not> get_remaining_department_budget self < 5000"
    using budget_at_least [of self] by simp
  show ?thesis
    using b
    by (auto simp: approve_eq can_approve_expenses_def get_approval_limit_def
        ENTERTAINMENT_REQUIRES_VP_def)
qed

theorem approve_limit_exceeded_iff_witness:
  "state (taxi_submitted\<lparr>amount := 500001 / 100\<rparr>) = SUBMITTED
   \<and> can_approve_expenses jane_manager \<and> role jane_manager = MANAGER
   \<and> is_active_approver jane_manager
   \<and> manager (taxi_submitted\<lparr>amount := 500001 / 100\<rparr>) = Some (uid jane_manager)
   \<and> approval_limit jane_manager = Some 5000
   \<and> 5000 < amount (taxi_submitted\<lparr>amount := 500001 / 100\<rparr>)
   \<and> approve seed_world jane_manager (taxi_submitted\<lparr>amount := 500001 / 100\<rparr>)
       = (Raised (ExceedsApprovalLimit (500001 / 100)), taxi_submitted\<lparr>amount := 500001 / 100\<rparr>)
   \<and> approve seed_world jane_manager (taxi_submitted\<lparr>amount := 5000\<rparr>)
       = (Returned, taxi_submitted\<lparr>amount := 5000, approved_at := Some (now seed_world),
                                   approved_by := Some 2, state := APPROVED\<rparr>)
   \<and> can_approve_expenses david_vp \<and> role david_vp \<noteq> MANAGER
   \<and> approval_limit david_vp = Some 50000
   \<and> \<not> 50000 < amount (taxi_submitted\<lparr>amount := 6000\<rparr>)
   \<and> fst (approve seed_world david_vp (taxi_submitted\<lparr>amount := 6000\<rparr>)) = Returned
   \<and> can_approve_expenses (jane_manager\<lparr>approval_limit := None\<rparr>)
   \<and> approval_limit (jane_manager\<lparr>approval_limit := None\<rparr>) = None
   \<and> 0 < amount taxi_submitted
   \<and> fst (approve seed_world (jane_manager\<lparr>approval_limit := None\<rparr>) taxi_submitted)
       = Raised (ExceedsApprovalLimit 20)"
proof -
  have v: "fst (approve seed_world david_vp (taxi_submitted\<lparr>amount := 6000\<rparr>)) = Returned"
    by code_simp
  have n: "fst (approve seed_world (jane_manager\<lparr>approval_limit := None\<rparr>) taxi_submitted)
       = Raised (ExceedsApprovalLimit 20)"
    by code_simp
  show ?thesis
    using v n
      approve_limit_exceeded_iff
        [of "taxi_submitted\<lparr>amount := 500001 / 100\<rparr>" jane_manager 5000 seed_world]
      approve_limit_exceeded_iff [of "taxi_submitted\<lparr>amount := 5000\<rparr>" jane_manager 5000 seed_world]
      approve_limit_exceeded_iff [of "taxi_submitted\<lparr>amount := 6000\<rparr>" david_vp 50000 seed_world]
      approve_limit_exceeded_iff
        [of taxi_submitted "jane_manager\<lparr>approval_limit := None\<rparr>" 0 seed_world]
    by (simp add: taxi_submitted_def taxi_draft_def jane_manager_def david_vp_def
        can_approve_expenses_def)
qed

text \<open>
  Claim C4, as stated, fails: a manager whose approval limit is below the amount is denied
  with the limit-exceeded error, not with the entertainment violation, since the limit
  check runs first.
\<close>

theorem entertainment_violation_counterexample:
  "state (taxi_submitted\<lparr>expense_category := ENTERTAINMENT, amount := 250\<rparr>) = SUBMITTED
   \<and> expense_category (taxi_submitted\<lparr>expense_category := ENTERTAINMENT, amount := 250\<rparr>)
       = ENTERTAINMENT
   \<and> 200 < amount (taxi_submitted\<lparr>expense_category := ENTERTAINMENT, amount := 250\<rparr>)
   \<and> role (jane_manager\<lparr>approval_limit := Some 100\<rparr>) = MANAGER
   \<and> fst (approve seed_world (jane_manager\<lparr>approval_limit := Some 100\<rparr>)
            (taxi_submitted\<lparr>expense_category := ENTERTAINMENT, amount := 250\<rparr>))
       = Raised (ExceedsApprovalLimit 250)
   \<and> fst (approve seed_world (jane_manager\<lparr>approval_limit := Some 100\<rparr>)
            (taxi_submitted\<lparr>expense_category := ENTERTAINMENT, amount := 250\<rparr>))
       \<noteq> Raised (ValidationError ''Entertainment expenses over $200 require VP approval'')"
  by (simp add: approve_eq taxi_submitted_def taxi_draft_def jane_manager_def
      can_approve_expenses_def get_approval_limit_def)

text \<open>
  Claim C4, amended. On a submitted entertainment expense of amount above 200.00, approve
  by an actor of role manager never returns, whatever the approval limit; it raises the
  entertainment violation when the checks before it pass (active approver, the assigned
  manager, approval limit at least the amount, amount within the department budget) and
  the limit-exceeded error when only the limit is too low. Approve by an active vp or cfo
  within the approval limit and the budget returns with state approved. At amount 200.00
  or below, approve by the assigned, active manager within the approval limit returns.
\<close>

theorem entertainment_requires_executive:
  "state self = SUBMITTED \<and> expense_category self = ENTERTAINMENT \<longrightarrow>
     (200 < amount self \<and> role u = MANAGER \<longrightarrow> fst (approve w u self) \<noteq> Returned)
     \<and> (200 < amount self \<and> role u = MANAGER \<and> is_active_approver u
          \<and> manager self = Some (uid u) \<and> amount self \<le> get_approval_limit u
          \<and> amount self \<le> get_remaining_department_budget self \<longrightarrow>
          approve w u self =
            (Raised (ValidationError ''Entertainment expenses over $200 require VP approval''),
             self))
     \<and> (200 < amount self \<and> role u = MANAGER \<and> is_active_approver u
          \<and> manager self = Some (uid u) \<and> get_approval_limit u < amount self \<longrightarrow>
          approve w u self = (Raised (ExceedsApprovalLimit (amount self)), self))
     \<and> (200 < amount self \<and> (role u = VP \<or> role u = CFO) \<and> is_active_approver u
          \<and> amount self \<le> get_approval_limit u
          \<and> amount self \<le> get_remaining_department_budget self \<longrightarrow>
          approve w u self =
            (Returned, self\<lparr>approved_at := Some (now w), approved_by := Some (uid u),
                             state := APPROVED\<rparr>))
     \<and> (amount self \<le> 200 \<and> role u = MANAGER \<and> is_active_approver u
          \<and> manager self = Some (uid u) \<and> amount self \<le> get_approval_limit u \<longrightarrow>
          approve w u self =
            (Returned, self\<lparr>approved_at := Some (now w), approved_by := Some (uid u),
                             state := APPROVED\<rparr>))"
proof -
  have b: "amount self \<le> 200 \<Longrightarrow> \<not> get_remaining_department_budget self < amount self"
    using budget_at_least [of self] by simp
  show ?thesis
    using b by (auto simp: approve_eq can_approve_expenses_def ENTERTAINMENT_REQUIRES_VP_def)
qed

theorem entertainment_requires_executive_witness:
  "state (taxi_submitted\<lparr>expense_category := ENTERTAINMENT, amount := 250\<rparr>) = SUBMITTED
   \<and> expense_category (taxi_submitted\<lparr>expense_category := ENTERTAINMENT, amount := 250\<rparr>)
       = ENTERTAINMENT
   \<and> 200 < amount (taxi_submitted\<lparr>expense_category := ENTERTAINMENT, amount := 250\<rparr>)
   \<and> role jane_manager = MANAGER \<and> is_active_approver jane_manager
   \<and> manager (taxi_submitted\<lparr>expense_category := ENTERTAINMENT, amount := 250\<rparr>)
       = Some (uid jane_manager)
   \<and> 250 \<le> get_approval_limit jane_manager
   \<and> 250 \<le> get_remaining_department_budget
              (taxi_submitted\<lparr>expense_category := ENTERTAINMENT, amount := 250\<rparr>)
   \<and> approve seed_world jane_manager
        (taxi_submitted\<lparr>expense_category := ENTERTAINMENT, amount := 250\<rparr>)
       = (Raised (ValidationError ''Entertainment expenses over $200 require VP approval''),
          taxi_submitted\<lparr>expense_category := ENTERTAINMENT, amount := 250\<rparr>)
   \<and> role david_vp = VP \<and> is_active_approver david_vp \<and> 250 \<le> get_approval_limit david_vp
   \<and> approve seed_world david_vp
        (taxi_submitted\<lparr>expense_category := ENTERTAINMENT, amount := 250\<rparr>)
       = (Returned,
          taxi_submitted\<lparr>expense_category := ENTERTAINMENT, amount := 250,
            approved_at := Some (now seed_world), approved_by := Some 5, state := APPROVED\<rparr>)
   \<and> get_approval_limit (jane_manager\<lparr>approval_limit := Some 100\<rparr>) < 250
   \<and> approve seed_world (jane_manager\<lparr>approval_limit := Some 100\<rparr>)
        (taxi_submitted\<lparr>expense_category := ENTERTAINMENT, amount := 250\<rparr>)
       = (Raised (ExceedsApprovalLimit 250),
          taxi_submitted\<lparr>expense_category := ENTERTAINMENT, amount := 250\<rparr>)
   \<and> approve seed_world jane_manager
        (taxi_submitted\<lparr>expense_category := ENTERTAINMENT, amount := 200\<rparr>)
       = (Returned,
          taxi_submitted\<lparr>expense_category := ENTERTAINMENT, amount := 200,
            approved_at := Some (now seed_world), approved_by := Some 2, state := APPROVED\<rparr>)"
  using entertainment_requires_executive
      [of "taxi_submitted\<lparr>expense_category := ENTERTAINMENT, amount := 250\<rparr>"
        jane_manager seed_world]
    entertainment_requires_executive
      [of "taxi_submitted\<lparr>expense_category := ENTERTAINMENT, amount := 250\<rparr>"
        david_vp seed_world]
    entertainment_requires_executive
      [of "taxi_submitted\<lparr>expense_category := ENTERTAINMENT, amount := 250\<rparr>"
        "jane_manager\<lparr>approval_limit := Some 100\<rparr>" seed_world]
    entertainment_requires_executive
      [of "taxi_submitted\<lparr>expense_category := ENTERTAINMENT, amount := 200\<rparr>"
        jane_manager seed_world]
  by (simp add: taxi_submitted_def taxi_draft_def jane_manager_def david_vp_def
      get_approval_limit_def get_remaining_department_budget_def department_budgets_def)

lemma first_by_pk_least:
  "least_pk_among P us (map_option uid (first_by_pk (filter P us)))"
proof (cases "sort_key uid (filter P us)")
  case Nil
  then have "filter P us = []"
    by (metis length_0_conv length_sort)
  with Nil show ?thesis
    by (auto simp: least_pk_among_def first_by_pk_def list_ex_iff filter_empty_conv)
next
  case (Cons u rest)
  have s: "sorted (map uid (sort_key uid (filter P us)))"
    by (rule sorted_sort_key)
  have m: "set (sort_key uid (filter P us)) = set (filter P us)"
    by simp
  from m Cons have u: "u \<in> set us" "P u"
    by auto
  have l: "\<forall>v \<in> set us. P v \<longrightarrow> uid u \<le> uid v"
  proof (intro ballI impI)
    fix v assume "v \<in> set us" "P v"
    then have "v \<in> set (sort_key uid (filter P us))" by simp
    with Cons have "v = u \<or> v \<in> set rest" by simp
    with s Cons show "uid u \<le> uid v" by auto
  qed
  from Cons u l show ?thesis
    by (auto simp: least_pk_among_def first_by_pk_def list_ex_iff list_all_iff)
qed

lemma submit_body_eq:
  "submit_body w u self =
     (if uid u \<noteq> uid (employee self)
      then (Raised (ValidationError ''Only the expense owner can submit''), self)
      else if MAX_AMOUNT_WITHOUT_RECEIPT < amount self \<and> \<not> receipts_exist w self
      then (Raised (ValidationError ''Receipts required for amounts over $25''), self)
      else if get_monthly_expense_limit u < get_monthly_submitted_amount w u + amount self
      then (Raised (ValidationError ''Monthly submission limit exceeded''), self)
      else if is_vendor_blacklisted self
      then (Raised (ValidationError ''Vendor is currently under investigation''), self)
      else if is_duplicate_expense w self
      then (Raised (ValidationError ''Potential duplicate expense detected''), self)
      else (Returned,
            self\<lparr>manager := get_direct_manager (employee self),
                 finance_user := map_option uid (get_finance_user w),
                 compliance_user := map_option uid (get_compliance_user w),
                 submitted_at := Some (now w)\<rparr>))"
  by (simp add: stmt_defs submit_body_def validate_submission_rules_def
      expense_get_direct_manager_def)

lemmas submit_eq = submit_def transition_def has_transition_def submit_body_eq

text \<open>
  Claim C6, as stated, fails: the finance lookup also requires the department
  \<open>''Finance''\<close>, so with an active finance user of another department as the only one,
  submit returns and leaves finance_user unset.
\<close>

theorem finance_user_counterexample:
  "mike_finance\<lparr>user_department := ''Accounting''\<rparr> \<in> set (users accounting_world)
   \<and> role (mike_finance\<lparr>user_department := ''Accounting''\<rparr>) = FINANCE
   \<and> is_active (mike_finance\<lparr>user_department := ''Accounting''\<rparr>)
   \<and> fst (submit accounting_world john_employee taxi_draft) = Returned
   \<and> finance_user (snd (submit accounting_world john_employee taxi_draft)) = None"
  by code_simp

text \<open>
  Claim C6, amended. When submit returns, finance_user is the active user of role finance
  and department \<open>''Finance''\<close> of least primary key (unset when there is none), and
  compliance_user the active user of role compliance of least primary key (unset when there
  is none); so with at least one active finance user of department \<open>''Finance''\<close>,
  finance_user is set.
\<close>

theorem submit_resolves_parties:
  "fst (submit w u self) = Returned \<longrightarrow>
     least_pk_among (\<lambda>x. role x = FINANCE \<and> user_department x = ''Finance'' \<and> is_active x)
       (users w) (finance_user (snd (submit w u self)))
     \<and> least_pk_among (\<lambda>x. role x = COMPLIANCE \<and> is_active x)
         (users w) (compliance_user (snd (submit w u self)))
     \<and> (list_ex (\<lambda>x. role x = FINANCE \<and> user_department x = ''Finance'' \<and> is_active x)
           (users w) \<longrightarrow> finance_user (snd (submit w u self)) \<noteq> None)"
proof
  assume r: "fst (submit w u self) = Returned"
  then have f: "finance_user (snd (submit w u self)) = map_option uid (get_finance_user w)"
    and c: "compliance_user (snd (submit w u self)) = map_option uid (get_compliance_user w)"
    by (auto simp: submit_eq split: if_splits)
  have lf: "least_pk_among (\<lambda>x. role x = FINANCE \<and> user_department x = ''Finance'' \<and> is_active x)
       (users w) (finance_user (snd (submit w u self)))"
    unfolding f get_finance_user_def by (rule first_by_pk_least)
  have lc: "least_pk_among (\<lambda>x. role x = COMPLIANCE \<and> is_active x)
         (users w) (compliance_user (snd (submit w u self)))"
    unfolding c get_compliance_user_def by (rule first_by_pk_least)
  from lf have "list_ex (\<lambda>x. role x = FINANCE \<and> user_department x = ''Finance'' \<and> is_active x)
           (users w) \<longrightarrow> finance_user (snd (submit w u self)) \<noteq> None"
    by (auto simp: least_pk_among_def split: option.splits)
  with lf lc show "least_pk_among (\<lambda>x. role x = FINANCE \<and> user_department x = ''Finance'' \<and> is_active x)
       (users w) (finance_user (snd (submit w u self)))
     \<and> least_pk_among (\<lambda>x. role x = COMPLIANCE \<and> is_active x)
         (users w) (compliance_user (snd (submit w u self)))
     \<and> (list_ex (\<lambda>x. role x = FINANCE \<and> user_department x = ''Finance'' \<and> is_active x)
           (users w) \<longrightarrow> finance_user (snd (submit w u self)) \<noteq> None)"
    by simp
qed

theorem submit_resolves_parties_witness:
  "fst (submit seed_world john_employee taxi_draft) = Returned
   \<and> list_ex (\<lambda>x. role x = FINANCE \<and> user_department x = ''Finance'' \<and> is_active x)
       (users seed_world)
   \<and> finance_user (snd (submit seed_world john_employee taxi_draft)) = Some 3
   \<and> compliance_user (snd (submit seed_world john_employee taxi_draft)) = Some 4
   \<and> finance_user (snd (submit seed_world john_employee taxi_draft)) \<noteq> None"
proof -
  have a: "fst (submit seed_world john_employee taxi_draft) = Returned"
    by code_simp
  have b: "list_ex (\<lambda>x. role x = FINANCE \<and> user_department x = ''Finance'' \<and> is_active x)
       (users seed_world)"
    by code_simp
  have c: "finance_user (snd (submit seed_world john_employee taxi_draft)) = Some 3"
    by code_simp
  have d: "compliance_user (snd (submit seed_world john_employee taxi_draft)) = Some 4"
    by code_simp
  show ?thesis
    using a b c d submit_resolves_parties [of seed_world john_employee taxi_draft]
    by simp
qed








text \<open>
  Claim C8. The code departs from the claim for a request that carries no reason. The
  serializer declares the field optional, so a request without the key skips the field,
  \<^verbatim>\<open>validate_reason\<close> never runs, the view passes the default empty string to the
  transition, and the transition, which does not look at the reason, commits: the answer is
  200 and the stored expense has the new state and an empty reason. A request that carries
  an empty reason is refused by \<^verbatim>\<open>validate_reason\<close>, which is what the hook is for.
\<close>

theorem missing_reason_commits:
  "reject_view seed_world jane_manager None taxi_submitted
     = (HTTP_200_OK
          (taxi_submitted\<lparr>rejected_at := Some noon_15_june, rejection_reason := '''',
             state := REJECTED, updated_at := noon_15_june\<rparr>),
        seed_world\<lparr>expenses :=
          [taxi_submitted\<lparr>rejected_at := Some noon_15_june, rejection_reason := '''',
             state := REJECTED, updated_at := noon_15_june\<rparr>]\<rparr>)
   \<and> flag_suspicious_view seed_world sarah_compliance None taxi_submitted
     = (HTTP_200_OK
          (taxi_submitted\<lparr>flagged_at := Some noon_15_june, flagged_by := Some 4,
             flag_reason := '''', state := COMPLIANCE_HOLD, updated_at := noon_15_june\<rparr>),
        seed_world\<lparr>expenses :=
          [taxi_submitted\<lparr>flagged_at := Some noon_15_june, flagged_by := Some 4,
             flag_reason := '''', state := COMPLIANCE_HOLD, updated_at := noon_15_june\<rparr>]\<rparr>)
   \<and> executive_override_view seed_world david_vp None taxi_submitted
     = (HTTP_200_OK
          (taxi_submitted\<lparr>approved_at := Some noon_15_june, approved_by := Some 5,
             override_reason := '''', state := APPROVED, updated_at := noon_15_june\<rparr>),
        seed_world\<lparr>expenses :=
          [taxi_submitted\<lparr>approved_at := Some noon_15_june, approved_by := Some 5,
             override_reason := '''', state := APPROVED, updated_at := noon_15_june\<rparr>]\<rparr>)
   \<and> reject_view seed_world jane_manager (Some '''') taxi_submitted
     = (HTTP_400_serializer_errors ''Reason is required for reject action'', seed_world)
   \<and> flag_suspicious_view seed_world sarah_compliance (Some '''') taxi_submitted
     = (HTTP_400_serializer_errors ''Reason is required for flag_suspicious action'',
        seed_world)
   \<and> executive_override_view seed_world david_vp (Some '''') taxi_submitted
     = (HTTP_400_serializer_errors ''Reason is required for executive_override action'',
        seed_world)"
  by code_simp

lemma transition_returned:
  "transition source target method self = (Returned, self') \<Longrightarrow>
     has_transition source (state self) \<and> state self' = target"
  by (auto simp: transition_def split: if_splits prod.splits outcome.splits)

lemma transition_not_allowed:
  "\<not> has_transition source (state self) \<Longrightarrow>
     transition source target method self = (Raised TransitionNotAllowed, self)"
  by (simp add: transition_def)

lemma any_state_all: "s \<in> set any_state"
  by (cases s) (simp_all add: any_state_def)

lemma spec_edge_iff:
  "spec_edge s t s' \<longleftrightarrow>
     (t = T_submit \<and> s = DRAFT \<and> s' = SUBMITTED)
     \<or> (t = T_approve \<and> s = SUBMITTED \<and> s' = APPROVED)
     \<or> (t = T_reject \<and> (s = SUBMITTED \<or> s = COMPLIANCE_HOLD) \<and> s' = REJECTED)
     \<or> (t = T_withdraw \<and> s = SUBMITTED \<and> s' = DRAFT)
     \<or> (t = T_process_payment \<and> s = APPROVED \<and> s' = PAID)
     \<or> (t = T_flag_suspicious \<and> s' = COMPLIANCE_HOLD)
     \<or> (t = T_executive_override \<and> s' = APPROVED)"
  using any_state_all [of s] by (auto simp: spec_edge_def spec_transition_table_def)

lemma spec_source_iff:
  "spec_source s t \<longleftrightarrow>
     (t = T_submit \<and> s = DRAFT)
     \<or> (t = T_approve \<and> s = SUBMITTED)
     \<or> (t = T_reject \<and> (s = SUBMITTED \<or> s = COMPLIANCE_HOLD))
     \<or> (t = T_withdraw \<and> s = SUBMITTED)
     \<or> (t = T_process_payment \<and> s = APPROVED)
     \<or> t = T_flag_suspicious \<or> t = T_executive_override"
  using any_state_all [of s] by (auto simp: spec_source_def spec_transition_table_def)

lemma request_returned_edge:
  "request_transition w r self = (Returned, self') \<Longrightarrow>
     spec_edge (state self) (name_of r) (state self')"
  by (cases r)
    (auto simp: spec_edge_iff submit_def approve_def reject_def withdraw_def
      process_payment_def flag_suspicious_def executive_override_def has_transition_def
      dest!: transition_returned)

lemma request_not_source:
  "\<not> spec_source (state self) (name_of r) \<Longrightarrow>
     request_transition w r self = (Raised TransitionNotAllowed, self)"
  by (cases r)
    (auto simp: spec_source_iff submit_def approve_def reject_def withdraw_def
      process_payment_def flag_suspicious_def executive_override_def has_transition_def
      intro!: transition_not_allowed)

lemma request_step:
  "(fst (request_transition w r self) = Returned \<longrightarrow>
      spec_edge (state self) (name_of r) (state (snd (request_transition w r self))))
   \<and> (fst (request_transition w r self) \<noteq> Returned \<longrightarrow>
        state (snd (request_transition w r self)) = state self)
   \<and> (\<not> spec_source (state self) (name_of r) \<longrightarrow>
        fst (request_transition w r self) = Raised TransitionNotAllowed)"
proof -
  obtain out self' where eq: "request_transition w r self = (out, self')"
    by (cases "request_transition w r self")
  show ?thesis
  proof (cases out)
    case Returned
    with eq request_returned_edge [of w r self self'] request_not_source [of self r w]
    show ?thesis by auto
  next
    case (Raised err)
    with eq request_transition_raised [of w r self err self'] request_not_source [of self r w]
    show ?thesis by auto
  qed
qed

lemma spec_reachable_trans:
  "spec_reachable s' s'' \<Longrightarrow> spec_reachable s s' \<Longrightarrow> spec_reachable s s''"
  by (induction rule: spec_reachable.induct) (auto intro: spec_reachable.intros)

lemma request_step_reachable:
  "spec_reachable (state self) (state (snd (request_transition w r self)))"
proof (cases "fst (request_transition w r self) = Returned")
  case True
  then have "spec_edge (state self) (name_of r) (state (snd (request_transition w r self)))"
    using request_step [of w r self] by simp
  then show ?thesis
    using spec_reachable.along [OF spec_reachable.here] by blast
next
  case False
  then have "state (snd (request_transition w r self)) = state self"
    using request_step [of w r self] by simp
  then show ?thesis by (simp add: spec_reachable.here)
qed

text \<open>
  Claim C1. For every expense and every sequence of transition requests, each request that
  returns moves the state along an edge of the transition table of section 4.5, each request
  that raises leaves the state as it was, and a transition requested from a state the table
  does not list as its source raises TransitionNotAllowed; so the state after the sequence
  is reached from the state before it through edges of the table only.
\<close>

theorem states_follow_transition_table:
  "(\<forall>(s, t, out, s') \<in> set (request_log rs self).
      (out = Returned \<longrightarrow> spec_edge s t s')
      \<and> (out \<noteq> Returned \<longrightarrow> s' = s)
      \<and> (\<not> spec_source s t \<longrightarrow> out = Raised TransitionNotAllowed \<and> s' = s))
   \<and> spec_reachable (state self) (state (run_requests rs self))"
proof (induction rs arbitrary: self)
  case Nil
  show ?case by (simp add: spec_reachable.here)
next
  case (Cons x rs)
  obtain w r where x: "x = (w, r)" by (cases x)
  let ?next = "snd (request_transition w r self)"
  have step: "(fst (request_transition w r self) = Returned \<longrightarrow>
      spec_edge (state self) (name_of r) (state ?next))
   \<and> (fst (request_transition w r self) \<noteq> Returned \<longrightarrow> state ?next = state self)
   \<and> (\<not> spec_source (state self) (name_of r) \<longrightarrow>
        fst (request_transition w r self) = Raised TransitionNotAllowed)"
    by (rule request_step)
  have reach: "spec_reachable (state self) (state ?next)"
    by (rule request_step_reachable)
  from Cons.IH [of ?next] have log: "\<forall>(s, t, out, s') \<in> set (request_log rs ?next).
      (out = Returned \<longrightarrow> spec_edge s t s')
      \<and> (out \<noteq> Returned \<longrightarrow> s' = s)
      \<and> (\<not> spec_source s t \<longrightarrow> out = Raised TransitionNotAllowed \<and> s' = s)"
    and rest: "spec_reachable (state ?next) (state (run_requests rs ?next))"
    by simp_all
  from reach rest have "spec_reachable (state self) (state (run_requests rs ?next))"
    using spec_reachable_trans by blast
  with step log x show ?case by auto
qed

theorem states_follow_transition_table_witness:
  "request_log taxi_requests taxi_draft =
     [(DRAFT, T_withdraw, Raised TransitionNotAllowed, DRAFT),
      (DRAFT, T_submit, Returned, SUBMITTED),
      (SUBMITTED, T_approve, Returned, APPROVED)]
   \<and> \<not> spec_source DRAFT T_withdraw
   \<and> spec_edge DRAFT T_submit SUBMITTED
   \<and> spec_edge SUBMITTED T_approve APPROVED
   \<and> state (run_requests taxi_requests taxi_draft) = APPROVED
   \<and> spec_reachable DRAFT APPROVED"
proof -
  have a: "request_log taxi_requests taxi_draft =
     [(DRAFT, T_withdraw, Raised TransitionNotAllowed, DRAFT),
      (DRAFT, T_submit, Returned, SUBMITTED),
      (SUBMITTED, T_approve, Returned, APPROVED)]"
    by code_simp
  have b: "state (run_requests taxi_requests taxi_draft) = APPROVED"
    by code_simp
  have c: "\<not> spec_source DRAFT T_withdraw"
    by code_simp
  have d: "state taxi_draft = DRAFT"
    by code_simp
  show ?thesis
    using a b c d states_follow_transition_table [of taxi_requests taxi_draft]
    by simp
qed

text \<open>
  Claim C5. The code departs from the claim's example. The monthly total sums every expense
  of the employee created since the start of the month, the draft being submitted among
  them. With 1995.00 submitted earlier in the month and a limit of 2000.00, the further
  draft of 5.00 is counted twice (1995 + 5 + 5) and submit raises the monthly-limit error;
  the same draft with a row created the month before is submitted.
\<close>

theorem monthly_total_counts_the_draft:
  "monthly_expense_limit john_employee = Some 2000
   \<and> get_monthly_submitted_amount (june_world\<lparr>expenses := [hotel_submitted]\<rparr>) john_employee
       = 1995
   \<and> amount coffee_draft = 5
   \<and> get_monthly_submitted_amount june_world john_employee = 2000
   \<and> submit june_world john_employee coffee_draft
       = (Raised (ValidationError ''Monthly submission limit exceeded''), coffee_draft)
   \<and> fst (submit
            (june_world\<lparr>expenses :=
               [hotel_submitted, coffee_draft\<lparr>created_at := noon_15_june\<lparr>month := 5\<rparr>\<rparr>]\<rparr>)
            john_employee (coffee_draft\<lparr>created_at := noon_15_june\<lparr>month := 5\<rparr>\<rparr>))
       = Returned"
  by code_simp

end
